theory Spec2Isabelle
  imports Complex_Main "HOL-Library.Word" "HOL-Library.AList"
begin

section \<open>Python values, dictionaries and exceptions\<close>

text \<open>
  The wallet classes of \<^verbatim>\<open>evm_wallet/wallet.py\<close> (\<^verbatim>\<open>AsyncWallet\<close>, \<^verbatim>\<open>Wallet\<close>) and
  of \<^verbatim>\<open>evm_wallet/_base_wallet.py\<close> (\<^verbatim>\<open>_BaseWallet\<close>) are dynamically typed: a network
  argument is a name or a dictionary, a token is a string or a byte string, a transaction
  hash is a \<^verbatim>\<open>HexBytes\<close>, a \<^verbatim>\<open>bytes\<close> or a \<^verbatim>\<open>str\<close>. The values the methods
  inspect are collected in one datatype. \<^verbatim>\<open>HexBytes\<close> is a subclass of \<^verbatim>\<open>bytes\<close>, so it
  has a constructor of its own. A dictionary with string keys is an association list in
  insertion order; \<open>map_of\<close> reads it and \<open>AList.update\<close> writes it, replacing a
  present key in place and appending an absent one, as a Python \<^verbatim>\<open>dict\<close> does.
  Strings are ASCII.
\<close>

type_synonym bytes = "8 word list"

datatype pyval =
    PNone
  | PInt int
  | PStr string
  | PBytes bytes
  | PHexBytes bytes
  | PDict "(string \<times> pyval) list"

type_synonym pydict = "(string \<times> pyval) list"

text \<open>
  Numbers returned by the balance queries: the raw integer, the \<^verbatim>\<open>float\<close> that Python's
  true division \<^verbatim>\<open>/\<close> yields, and the \<^verbatim>\<open>Decimal\<close> of the client library's
  \<^verbatim>\<open>from_wei\<close>. A float carries the exact quotient; the rounding to binary64 is not
  modelled.
\<close>

datatype pynum = PyInt int | PyFloat real | PyDecimal real

text \<open>
  Exceptions. \<^verbatim>\<open>InvalidNetworkInfo\<close> is the package's own exception, raised with the
  offending argument; \<^verbatim>\<open>TypeError\<close>, \<^verbatim>\<open>ValueError\<close>, \<^verbatim>\<open>KeyError\<close>,
  \<^verbatim>\<open>AttributeError\<close> and \<^verbatim>\<open>RuntimeError\<close> are Python's, with their message;
  \<^verbatim>\<open>Web3Error\<close> stands for whatever the client library raises (RPC failure, invalid key,
  invalid address).
\<close>

datatype error =
    InvalidNetworkInfo pyval
  | TypeError string
  | ValueError string
  | KeyError string
  | AttributeError string
  | RuntimeError string
  | Web3Error string

definition getitem :: "pydict \<Rightarrow> string \<Rightarrow> error + pyval" where
  \<comment> \<open>\<^verbatim>\<open>d[k]\<close>: raises \<^verbatim>\<open>KeyError\<close> on a missing key\<close>
  "getitem d k = (case map_of d k of None \<Rightarrow> Inl (KeyError k) | Some v \<Rightarrow> Inr v)"

definition type_name :: "pyval \<Rightarrow> string" where
  "type_name v =
     (case v of
        PNone \<Rightarrow> ''NoneType''
      | PInt _ \<Rightarrow> ''int''
      | PStr _ \<Rightarrow> ''str''
      | PBytes _ \<Rightarrow> ''bytes''
      | PHexBytes _ \<Rightarrow> ''hexbytes.main.HexBytes''
      | PDict _ \<Rightarrow> ''dict'')"

definition type_repr :: "pyval \<Rightarrow> string" where
  \<comment> \<open>what \<^verbatim>\<open>{type(x)}\<close> prints inside an f-string\<close>
  "type_repr v = ''<class '' @ [CHR 0x27] @ type_name v @ [CHR 0x27] @ ''>''"

definition no_attribute :: "pyval \<Rightarrow> string \<Rightarrow> error" where
  \<comment> \<open>calling a \<^verbatim>\<open>str\<close> method on a value that has none\<close>
  "no_attribute v a =
     AttributeError
       ([CHR 0x27] @ type_name v @ [CHR 0x27] @ '' object has no attribute '' @ [CHR 0x27] @ a @ [CHR 0x27])"

subsection \<open>String and byte-string methods\<close>

definition py_upper_char :: "char \<Rightarrow> char" where
  "py_upper_char c =
     (case map_of (zip ''abcdefghijklmnopqrstuvwxyz'' ''ABCDEFGHIJKLMNOPQRSTUVWXYZ'') c of
        Some u \<Rightarrow> u | None \<Rightarrow> c)"

definition py_lower_char :: "char \<Rightarrow> char" where
  "py_lower_char c =
     (case map_of (zip ''ABCDEFGHIJKLMNOPQRSTUVWXYZ'' ''abcdefghijklmnopqrstuvwxyz'') c of
        Some l \<Rightarrow> l | None \<Rightarrow> c)"

definition str_upper :: "string \<Rightarrow> string" where
  "str_upper s = map py_upper_char s"

definition str_lower :: "string \<Rightarrow> string" where
  "str_lower s = map py_lower_char s"

definition bytes_upper :: "bytes \<Rightarrow> bytes" where
  \<comment> \<open>\<^verbatim>\<open>bytes.upper()\<close>: the ASCII letters a-z (97..122) move down by 32\<close>
  "bytes_upper bs = map (\<lambda>b. if 97 \<le> unat b \<and> unat b \<le> 122 then b - 32 else b) bs"

definition bytes_lower :: "bytes \<Rightarrow> bytes" where
  "bytes_lower bs = map (\<lambda>b. if 65 \<le> unat b \<and> unat b \<le> 90 then b + 32 else b) bs"

definition hex_digit :: "nat \<Rightarrow> char" where
  "hex_digit n = ''0123456789abcdef'' ! n"

definition bytes_hex :: "bytes \<Rightarrow> string" where
  \<comment> \<open>\<^verbatim>\<open>bytes.hex()\<close>: two lower-case digits per byte, no prefix\<close>
  "bytes_hex bs = concat (map (\<lambda>b. [hex_digit (unat b div 16), hex_digit (unat b mod 16)]) bs)"

definition HexBytes_hex :: "bytes \<Rightarrow> string" where
  \<comment> \<open>\<^verbatim>\<open>HexBytes.hex()\<close> of the hexbytes releases that the imported web3 (the one with
      \<^verbatim>\<open>geth_poa_middleware\<close>) depends on: the digits behind a \<^verbatim>\<open>0x\<close> prefix\<close>
  "HexBytes_hex bs = ''0x'' @ bytes_hex bs"

definition py_upper :: "pyval \<Rightarrow> error + pyval" where
  \<comment> \<open>\<^verbatim>\<open>x.upper()\<close>; on a byte string the result is a plain \<^verbatim>\<open>bytes\<close>\<close>
  "py_upper v =
     (case v of
        PStr s \<Rightarrow> Inr (PStr (str_upper s))
      | PBytes b \<Rightarrow> Inr (PBytes (bytes_upper b))
      | PHexBytes b \<Rightarrow> Inr (PBytes (bytes_upper b))
      | _ \<Rightarrow> Inl (no_attribute v ''upper''))"

definition py_lower :: "pyval \<Rightarrow> error + pyval" where
  "py_lower v =
     (case v of
        PStr s \<Rightarrow> Inr (PStr (str_lower s))
      | PBytes b \<Rightarrow> Inr (PBytes (bytes_lower b))
      | PHexBytes b \<Rightarrow> Inr (PBytes (bytes_lower b))
      | _ \<Rightarrow> Inl (no_attribute v ''lower''))"

definition py_hex :: "pyval \<Rightarrow> error + string" where
  \<comment> \<open>\<^verbatim>\<open>x.hex()\<close> of a byte string\<close>
  "py_hex v =
     (case v of
        PBytes b \<Rightarrow> Inr (bytes_hex b)
      | PHexBytes b \<Rightarrow> Inr (HexBytes_hex b)
      | _ \<Rightarrow> Inl (no_attribute v ''hex''))"

definition isinstance_bytes :: "pyval \<Rightarrow> bool" where
  \<comment> \<open>\<^verbatim>\<open>isinstance(x, bytes)\<close>: true of \<^verbatim>\<open>HexBytes\<close> too, which subclasses \<^verbatim>\<open>bytes\<close>\<close>
  "isinstance_bytes v = (case v of PBytes _ \<Rightarrow> True | PHexBytes _ \<Rightarrow> True | _ \<Rightarrow> False)"

definition isinstance_HexBytes :: "pyval \<Rightarrow> bool" where
  "isinstance_HexBytes v = (case v of PHexBytes _ \<Rightarrow> True | _ \<Rightarrow> False)"

definition isinstance_str :: "pyval \<Rightarrow> bool" where
  "isinstance_str v = (case v of PStr _ \<Rightarrow> True | _ \<Rightarrow> False)"

definition py_eq :: "pyval \<Rightarrow> pyval \<Rightarrow> bool" where
  \<comment> \<open>\<^verbatim>\<open>==\<close>: values of different types are unequal, except that a \<^verbatim>\<open>HexBytes\<close> and a
      \<^verbatim>\<open>bytes\<close> with the same content are equal. The wallet code compares a string, a
      byte string or an integer with a stored value, never two dictionaries, so the order
      of the entries of a dictionary plays no part.\<close>
  "py_eq a b =
     (case (a, b) of
        (PBytes x, PHexBytes y) \<Rightarrow> x = y
      | (PHexBytes x, PBytes y) \<Rightarrow> x = y
      | _ \<Rightarrow> a = b)"

definition ZERO_ADDRESS :: string where
  \<comment> \<open>\<^verbatim>\<open>Web3.to_checksum_address\<close> of forty zeros: no letter to capitalise\<close>
  "ZERO_ADDRESS = ''0x0000000000000000000000000000000000000000''"

definition py_getitem :: "pyval \<Rightarrow> string \<Rightarrow> error + pyval" where
  \<comment> \<open>\<^verbatim>\<open>x[k]\<close> with a string key: only a dictionary can answer\<close>
  "py_getitem v k =
     (case v of
        PDict d \<Rightarrow> getitem d k
      | PStr _ \<Rightarrow> Inl (TypeError (''string indices must be integers, not '' @ [CHR 0x27] @ ''str'' @ [CHR 0x27]))
      | PBytes _ \<Rightarrow> Inl (TypeError ''byte indices must be integers or slices, not str'')
      | PHexBytes _ \<Rightarrow> Inl (TypeError ''byte indices must be integers or slices, not str'')
      | _ \<Rightarrow> Inl (TypeError ([CHR 0x27] @ type_name v @ [CHR 0x27] @ '' object is not subscriptable'')))"

definition py_setitem :: "pyval \<Rightarrow> string \<Rightarrow> pyval \<Rightarrow> error + pyval" where
  \<comment> \<open>\<^verbatim>\<open>x[k] = y\<close>; the result is the object after the assignment\<close>
  "py_setitem v k y =
     (case v of
        PDict d \<Rightarrow> Inr (PDict (AList.update k y d))
      | _ \<Rightarrow> Inl (TypeError ([CHR 0x27] @ type_name v @ [CHR 0x27] @ '' object does not support item assignment'')))"

fun and_then :: "error + 'a \<Rightarrow> ('a \<Rightarrow> error + 'b) \<Rightarrow> error + 'b" where
  \<comment> \<open>sequencing of two statements: an exception of the first skips the second\<close>
  "and_then (Inl e) f = Inl e"
| "and_then (Inr x) f = f x"

section \<open>The client library\<close>

text \<open>
  Signing, transport, address checksums and contract calls belong to web3 and eth-account.
  Their answers are parameters of the model: each call either raises or returns. A provider
  is identified by the wrapper class, the provider class and the endpoint it was built from.
\<close>

datatype provider_class = HTTPProvider | WebsocketProvider | AsyncHTTPProvider

datatype provider = Web3 provider_class pyval | AsyncWeb3 provider_class pyval

datatype contract = Contract provider string

record web3_env =
  eth_chain_id :: "provider \<Rightarrow> error + int"
  eth_get_transaction_count :: "provider \<Rightarrow> string \<Rightarrow> error + int"
  Account_from_key :: "string \<Rightarrow> error + string"
  to_checksum_address :: "string \<Rightarrow> error + string"
  sign_transaction :: "pyval \<Rightarrow> string \<Rightarrow> error + bytes"
  eth_send_raw_transaction :: "provider \<Rightarrow> bytes \<Rightarrow> error + bytes"
  eth_get_balance :: "provider \<Rightarrow> string \<Rightarrow> error + int"
  from_wei :: "int \<Rightarrow> string \<Rightarrow> pynum"
  load_token_contract :: "provider \<Rightarrow> pyval \<Rightarrow> error + contract"
  balanceOf_call :: "contract \<Rightarrow> string \<Rightarrow> error + int"
  decimals_call :: "contract \<Rightarrow> error + nat"
  builtin_str :: "pyval \<Rightarrow> string"

definition py_format :: "web3_env \<Rightarrow> pyval \<Rightarrow> string" where
  \<comment> \<open>\<^verbatim>\<open>{x}\<close> inside an f-string: a \<^verbatim>\<open>str\<close> is inserted as it is, any other value
      through Python's \<^verbatim>\<open>str()\<close>\<close>
  "py_format env v = (case v of PStr s \<Rightarrow> s | _ \<Rightarrow> builtin_str env v)"

section \<open>Network table and network validation\<close>

definition network_map :: "(string \<times> pydict) list" where
  \<comment> \<open>\<^verbatim>\<open>_BaseWallet.__network_map\<close>, entry by entry, with the keys as they are spelled
      there (\<^verbatim>\<open>chaind_id\<close> in four entries)\<close>
  "network_map =
     [
      (''Arbitrum Goerli'',
        [(''chain_id'', PInt 421613),
         (''rpc'', PStr ''wss://arbitrum-goerli-rpc.publicnode.com''),
         (''token'', PStr ''ETH''),
         (''explorer'', PStr ''https://goerli.arbiscan.io'')]),
      (''Arbitrum Sepolia'',
        [(''chain_id'', PInt 421614),
         (''rpc'', PStr ''wss://arbitrum-sepolia-rpc.publicnode.com''),
         (''token'', PStr ''ETH''),
         (''explorer'', PStr ''https://sepolia.arbiscan.io'')]),
      (''Arbitrum'',
        [(''chain_id'', PInt 42161),
         (''rpc'', PStr ''wss://arbitrum-one-rpc.publicnode.com''),
         (''token'', PStr ''ETH''),
         (''explorer'', PStr ''https://arbiscan.io'')]),
      (''Avalanche'',
        [(''chain_id'', PInt 43114),
         (''rpc'', PStr ''wss://avalanche-c-chain-rpc.publicnode.com''),
         (''token'', PStr ''AVAX''),
         (''explorer'', PStr ''https://snowtrace.io/'')]),
      (''Base'',
        [(''chain_id'', PInt 8453),
         (''rpc'', PStr ''wss://base-rpc.publicnode.com''),
         (''token'', PStr ''ETH''),
         (''explorer'', PStr ''https://basescan.org/'')]),
      (''Base Goerli'',
        [(''chain_id'', PInt 84531),
         (''rpc'', PStr ''https://base-goerli.public.blastapi.io''),
         (''token'', PStr ''ETH''),
         (''explorer'', PStr ''https://goerli.basescan.org/'')]),
      (''Base Sepolia'',
        [(''chain_id'', PInt 84532),
         (''rpc'', PStr ''wss://base-sepolia-rpc.publicnode.com''),
         (''token'', PStr ''ETH''),
         (''explorer'', PStr ''https://sepolia.basescan.org/'')]),
      (''BSC'',
        [(''chain_id'', PInt 56),
         (''rpc'', PStr ''wss://bsc-rpc.publicnode.com''),
         (''token'', PStr ''BNB''),
         (''explorer'', PStr ''https://bscscan.com'')]),
      (''BSC Testnet'',
        [(''chain_id'', PInt 97),
         (''rpc'', PStr ''wss://bsc-testnet-rpc.publicnode.com''),
         (''token'', PStr ''BNB''),
         (''explorer'', PStr ''https://testnet.bscscan.com'')]),
      (''Ethereum'',
        [(''chain_id'', PInt 1),
         (''rpc'', PStr ''wss://ethereum-rpc.publicnode.com''),
         (''token'', PStr ''ETH''),
         (''explorer'', PStr ''https://etherscan.io'')]),
      (''Fantom'',
        [(''chain_id'', PInt 250),
         (''rpc'', PStr ''wss://fantom-rpc.publicnode.com''),
         (''token'', PStr ''FTM''),
         (''explorer'', PStr ''https://ftmscan.com/'')]),
      (''Fantom Testnet'',
        [(''chain_id'', PInt 4002),
         (''rpc'', PStr ''wss://fantom-testnet-rpc.publicnode.com''),
         (''token'', PStr ''FTM''),
         (''explorer'', PStr ''https://testnet.ftmscan.com/'')]),
      (''Fuji'',
        [(''chain_id'', PInt 43113),
         (''rpc'', PStr ''wss://avalanche-fuji-c-chain-rpc.publicnode.com''),
         (''token'', PStr ''AVAX''),
         (''explorer'', PStr ''https://testnet.snowtrace.io'')]),
      (''Goerli'',
        [(''chain_id'', PInt 5),
         (''rpc'', PStr ''wss://goerli.gateway.tenderly.co''),
         (''token'', PStr ''ETH''),
         (''explorer'', PStr ''https://goerli.etherscan.io'')]),
      (''Linea'',
        [(''chain_id'', PInt 59144),
         (''rpc'', PStr ''wss://linea.drpc.org''),
         (''token'', PStr ''ETH''),
         (''explorer'', PStr ''https://lineascan.build/'')]),
      (''Linea Goerli'',
        [(''chain_id'', PInt 59140),
         (''rpc'', PStr ''wss://linea-goerli.drpc.org''),
         (''token'', PStr ''ETH''),
         (''explorer'', PStr ''https://goerli.lineascan.build/'')]),
      (''Mumbai'',
        [(''chain_id'', PInt 80001),
         (''rpc'', PStr ''wss://polygon-mumbai-bor-rpc.publicnode.com''),
         (''token'', PStr ''MATIC''),
         (''explorer'', PStr ''https://mumbai.polygonscan.com/'')]),
      (''opBNB'',
        [(''chaind_id'', PInt 204),
         (''rpc'', PStr ''wss://opbnb-rpc.publicnode.com''),
         (''token'', PStr ''BNB''),
         (''explorer'', PStr ''https://opbnb.bscscan.com/'')]),
      (''opBNB Testnet'',
        [(''chaind_id'', PInt 5611),
         (''rpc'', PStr ''wss://opbnb-testnet-rpc.publicnode.com''),
         (''token'', PStr ''BNB''),
         (''explorer'', PStr ''https://opbnb-testnet.bscscan.com'')]),
      (''Optimism'',
        [(''chain_id'', PInt 10),
         (''rpc'', PStr ''wss://optimism-rpc.publicnode.com''),
         (''token'', PStr ''ETH''),
         (''explorer'', PStr ''https://optimistic.etherscan.io'')]),
      (''Optimism Sepolia'',
        [(''chaind_id'', PInt 11155420),
         (''rpc'', PStr ''wss://optimism-sepolia-rpc.publicnode.com''),
         (''token'', PStr ''ETH''),
         (''explorer'', PStr ''https://sepolia-optimism.etherscan.io/'')]),
      (''Optimism Goerli'',
        [(''chain_id'', PInt 420),
         (''rpc'', PStr ''wss://optimism-testnet.drpc.org''),
         (''token'', PStr ''ETH''),
         (''explorer'', PStr ''https://goerli-optimism.etherscan.io'')]),
      (''Polygon'',
        [(''chain_id'', PInt 137),
         (''rpc'', PStr ''wss://polygon-bor-rpc.publicnode.com''),
         (''token'', PStr ''MATIC''),
         (''explorer'', PStr ''https://polygonscan.com'')]),
      (''Sepolia'',
        [(''chain_id'', PInt 11155111),
         (''rpc'', PStr ''wss://ethereum-sepolia-rpc.publicnode.com''),
         (''token'', PStr ''ETH''),
         (''explorer'', PStr ''https://sepolia.etherscan.io'')]),
      (''Scroll'',
        [(''chaind_id'', PInt 534352),
         (''rpc'', PStr ''wss://scroll.drpc.org''),
         (''token'', PStr ''ETH''),
         (''explorer'', PStr ''https://scrollscan.com'')]),
      (''zkSync'',
        [(''chain_id'', PInt 324),
         (''rpc'', PStr ''wss://zksync.drpc.org''),
         (''token'', PStr ''ETH''),
         (''explorer'', PStr ''https://explorer.zksync.io'')])
     ]"

definition in_literal :: "pyval \<Rightarrow> string list \<Rightarrow> bool" where
  \<comment> \<open>Modelled from the spec: \<^verbatim>\<open>utils._in_literal\<close> is not among the sources; the
      argument is "a recognized network name", one of the names of the literal type\<close>
  "in_literal v names = (case v of PStr s \<Rightarrow> s \<in> set names | _ \<Rightarrow> False)"

definition Network :: "(string \<times> pydict) list \<Rightarrow> string list" where
  \<comment> \<open>Modelled from the spec: the literal type \<^verbatim>\<open>types.Network\<close> is not among the sources;
      the recognized names are those of "a hardcoded table keyed by network name"\<close>
  "Network nmap = map fst nmap"

definition NetworkInfo_keys :: "string list" where
  \<comment> \<open>Modelled from the spec: the typed dictionary \<^verbatim>\<open>types.NetworkInfo\<close> is not among the
      sources; its fields are "name, chain id, RPC endpoint, native token symbol, explorer
      URL", under the keys the wallet code reads\<close>
  "NetworkInfo_keys = [''network'', ''chain_id'', ''rpc'', ''token'', ''explorer'']"

definition has_keys :: "pyval \<Rightarrow> string list \<Rightarrow> bool" where
  \<comment> \<open>Modelled from the spec: \<^verbatim>\<open>utils._has_keys\<close> is not among the sources; the argument
      is "a complete network-info structure", a dictionary with every key of the record\<close>
  "has_keys v keys = (case v of PDict d \<Rightarrow> list_all (\<lambda>k. map_of d k \<noteq> None) keys | _ \<Rightarrow> False)"

definition table_getitem :: "(string \<times> pydict) list \<Rightarrow> pyval \<Rightarrow> error + pydict" where
  \<comment> \<open>\<^verbatim>\<open>NETWORK_MAP[network]\<close>: a string looks itself up; a dictionary is unhashable\<close>
  "table_getitem nmap v =
     (case v of
        PStr s \<Rightarrow> (case map_of nmap s of None \<Rightarrow> Inl (KeyError s) | Some e \<Rightarrow> Inr e)
      | PDict _ \<Rightarrow> Inl (TypeError (''unhashable type: '' @ [CHR 0x27] @ ''dict'' @ [CHR 0x27]))
      | _ \<Rightarrow> Inl (KeyError (type_name v)))"

definition NetworkInfo_call :: "pyval \<Rightarrow> pydict \<Rightarrow> error + pyval" where
  \<comment> \<open>\<^verbatim>\<open>NetworkInfo(network=network, **entry)\<close>: a typed dictionary is a plain \<^verbatim>\<open>dict\<close>
      at run time, so no key is checked; a keyword given twice is a \<^verbatim>\<open>TypeError\<close>\<close>
  "NetworkInfo_call network entry =
     (if map_of entry ''network'' \<noteq> None
      then Inl (TypeError (''dict() got multiple values for keyword argument ''
                           @ [CHR 0x27] @ ''network'' @ [CHR 0x27]))
      else Inr (PDict ((''network'', network) # entry)))"

definition AsyncWallet_validate_network :: "(string \<times> pydict) list \<Rightarrow> pyval \<Rightarrow> error + pyval" where
  \<comment> \<open>\<^verbatim>\<open>AsyncWallet.__validate_network\<close>; the table \<^verbatim>\<open>globals.NETWORK_MAP\<close> is not among
      the sources and is the parameter \<open>nmap\<close>\<close>
  "AsyncWallet_validate_network nmap network =
     (if in_literal network (Network nmap) then
        and_then (table_getitem nmap network) (\<lambda>entry. NetworkInfo_call network entry)
      else if has_keys network NetworkInfo_keys then Inr network
      else Inl (InvalidNetworkInfo network))"

definition BaseWallet_validate_network :: "web3_env \<Rightarrow> pyval \<Rightarrow> error + pyval" where
  \<comment> \<open>\<^verbatim>\<open>_BaseWallet.__validate_network\<close>\<close>
  "BaseWallet_validate_network env network =
     (if in_literal network (Network network_map) then
        and_then (table_getitem network_map network) (\<lambda>entry. NetworkInfo_call network entry)
      else if has_keys network NetworkInfo_keys then Inr network
      else Inl (TypeError (''Network information must be represented as NetworkInfo type or name of a supported ''
                           @ ''network. You provided value: '' @ py_format env network)))"

definition BaseWallet_validate_chain_id :: "web3_env \<Rightarrow> pyval \<Rightarrow> provider \<Rightarrow> error + pyval" where
  \<comment> \<open>\<^verbatim>\<open>_BaseWallet.__validate_chain_id\<close>. The method assigns into the dictionary it was
      given and returns it; the result here is that dictionary after the assignment.\<close>
  "BaseWallet_validate_chain_id env network_info prov =
     and_then (eth_chain_id env prov) (\<lambda>chain_id.
     and_then (py_getitem network_info ''chain_id'') (\<lambda>given.
       if given \<noteq> PNone \<and> \<not> py_eq (PInt chain_id) given then
         and_then (py_getitem network_info ''network'') (\<lambda>name.
         and_then (py_lower name) (\<lambda>lowered.
           Inl (ValueError (''Chain id in network info must be equal to the chain. Try to find it by: ''
                            @ ''https://chainlist.org/?search='' @ py_format env lowered))))
       else py_setitem network_info ''chain_id'' (PInt chain_id)))"

section \<open>Wallet state\<close>

text \<open>
  The private attributes of a wallet object. \<^verbatim>\<open>_BaseWallet\<close> keeps the network info, the
  provider, the private key, the account (its address), the checksummed public address and
  the cached nonce; \<^verbatim>\<open>AsyncWallet\<close> keeps the same attributes and the chain id read from
  the endpoint.
\<close>

record base_wallet =
  network :: pyval
  provider :: provider
  private_key :: string
  account :: string
  public_key :: string
  nonce :: int

record async_wallet = base_wallet +
  chain_id :: int

section \<open>Construction and network switch\<close>

definition AsyncWallet_init ::
  "web3_env \<Rightarrow> (string \<times> pydict) list \<Rightarrow> string \<Rightarrow> pyval \<Rightarrow> error + async_wallet" where
  \<comment> \<open>\<^verbatim>\<open>AsyncWallet.__init__\<close>; an exception leaves no object behind\<close>
  "AsyncWallet_init env nmap key network_arg =
     and_then (AsyncWallet_validate_network nmap network_arg) (\<lambda>network_info.
     and_then (py_getitem network_info ''rpc'') (\<lambda>rpc.
     let temp_provider = Web3 HTTPProvider rpc in
     and_then (Account_from_key env key) (\<lambda>address.
     and_then (to_checksum_address env address) (\<lambda>pk.
     and_then (eth_get_transaction_count env temp_provider pk) (\<lambda>count.
     and_then (eth_chain_id env temp_provider) (\<lambda>cid.
       Inr \<lparr>network = network_info, provider = AsyncWeb3 AsyncHTTPProvider rpc,
            private_key = key, account = address, public_key = pk, nonce = count,
            chain_id = cid\<rparr>))))))"

definition Wallet_init ::
  "web3_env \<Rightarrow> (string \<times> pydict) list \<Rightarrow> string \<Rightarrow> pyval \<Rightarrow> error + async_wallet" where
  \<comment> \<open>\<^verbatim>\<open>Wallet.__init__\<close> calls \<^verbatim>\<open>super().__init__\<close>\<close>
  "Wallet_init env nmap key network_arg = AsyncWallet_init env nmap key network_arg"

definition startswith :: "pyval \<Rightarrow> string \<Rightarrow> error + bool" where
  "startswith v p =
     (case v of
        PStr s \<Rightarrow> Inr (take (length p) s = p)
      | PBytes _ \<Rightarrow> Inl (TypeError ''startswith first arg must be bytes or a tuple of bytes, not str'')
      | PHexBytes _ \<Rightarrow> Inl (TypeError ''startswith first arg must be bytes or a tuple of bytes, not str'')
      | _ \<Rightarrow> Inl (no_attribute v ''startswith''))"

definition BaseWallet_init ::
  "web3_env \<Rightarrow> string \<Rightarrow> pyval \<Rightarrow> bool \<Rightarrow> error + base_wallet" where
  \<comment> \<open>\<^verbatim>\<open>_BaseWallet.__init__\<close>. The stored network info is the dictionary that
      \<^verbatim>\<open>__validate_chain_id\<close> assigned into.\<close>
  "BaseWallet_init env key network_arg is_async =
     and_then (BaseWallet_validate_network env network_arg) (\<lambda>network_info.
     and_then (py_getitem network_info ''rpc'') (\<lambda>rpc.
     and_then (startswith rpc ''wss://'') (\<lambda>is_websocket_rpc.
     let temp_provider =
           (if is_websocket_rpc then Web3 WebsocketProvider rpc else Web3 HTTPProvider rpc);
         prov =
           (if is_async then
              (if is_websocket_rpc then AsyncWeb3 WebsocketProvider rpc
               else AsyncWeb3 HTTPProvider rpc)
            else temp_provider)
     in
     and_then (BaseWallet_validate_chain_id env network_info temp_provider) (\<lambda>network_info'.
     and_then (Account_from_key env key) (\<lambda>address.
     and_then (to_checksum_address env address) (\<lambda>pk.
     and_then (eth_get_transaction_count env temp_provider pk) (\<lambda>count.
       Inr \<lparr>network = network_info', provider = prov, private_key = key,
            account = address, public_key = pk, nonce = count\<rparr>)))))))"

definition BaseWallet_temp_provider :: "string \<Rightarrow> provider" where
  \<comment> \<open>the \<^verbatim>\<open>temp_provider\<close> that \<^verbatim>\<open>_BaseWallet.__init__\<close> builds when the endpoint is
      the string \<open>rpc\<close>: the one whose chain id and transaction count are read\<close>
  "BaseWallet_temp_provider rpc =
     (if take (length ''wss://'') rpc = ''wss://'' then Web3 WebsocketProvider (PStr rpc)
      else Web3 HTTPProvider (PStr rpc))"

text \<open>
  A setter that raises half-way leaves the attributes assigned so far. The result is the
  outcome together with the object as it is afterwards.
\<close>

definition AsyncWallet_set_network ::
  "web3_env \<Rightarrow> (string \<times> pydict) list \<Rightarrow> async_wallet \<Rightarrow> pyval \<Rightarrow> (error + unit) \<times> async_wallet" where
  \<comment> \<open>the setter of \<^verbatim>\<open>AsyncWallet.network\<close>\<close>
  "AsyncWallet_set_network env nmap w v =
     (case AsyncWallet_validate_network nmap v of
        Inl e \<Rightarrow> (Inl e, w)
      | Inr network_info \<Rightarrow>
     (case py_getitem network_info ''rpc'' of
        Inl e \<Rightarrow> (Inl e, w)
      | Inr rpc \<Rightarrow>
     (let w1 = w\<lparr>network := network_info, provider := AsyncWeb3 AsyncHTTPProvider rpc\<rparr>;
          temp_provider = Web3 HTTPProvider rpc
      in case eth_get_transaction_count env temp_provider (public_key w1) of
        Inl e \<Rightarrow> (Inl e, w1)
      | Inr count \<Rightarrow>
     (let w2 = w1\<lparr>nonce := count\<rparr>
      in case eth_chain_id env temp_provider of
        Inl e \<Rightarrow> (Inl e, w2)
      | Inr cid \<Rightarrow> (Inr (), w2\<lparr>chain_id := cid\<rparr>)))))"

definition BaseWallet_set_network ::
  "web3_env \<Rightarrow> base_wallet \<Rightarrow> pyval \<Rightarrow> (error + unit) \<times> base_wallet" where
  \<comment> \<open>the setter of \<^verbatim>\<open>_BaseWallet.network\<close>\<close>
  "BaseWallet_set_network env w v =
     (case BaseWallet_validate_network env v of
        Inl e \<Rightarrow> (Inl e, w)
      | Inr network_info \<Rightarrow>
     (case py_getitem network_info ''rpc'' of
        Inl e \<Rightarrow> (Inl e, w)
      | Inr rpc \<Rightarrow>
     (let w1 = w\<lparr>network := network_info, provider := AsyncWeb3 AsyncHTTPProvider rpc\<rparr>;
          temp_provider = Web3 HTTPProvider rpc
      in case eth_get_transaction_count env temp_provider (public_key w1) of
        Inl e \<Rightarrow> (Inl e, w1)
      | Inr count \<Rightarrow> (Inr (), w1\<lparr>nonce := count\<rparr>))))"

section \<open>Queries\<close>

definition AsyncWallet_is_native_token :: "'a base_wallet_scheme \<Rightarrow> pyval \<Rightarrow> error + bool" where
  \<comment> \<open>\<^verbatim>\<open>AsyncWallet.is_native_token\<close>. The statement \<^verbatim>\<open>token.hex()\<close> under the
      \<^verbatim>\<open>isinstance\<close> test computes a string and drops it: \<^verbatim>\<open>token\<close> stays the byte
      string. \<^verbatim>\<open>or\<close> stops at the first true operand.\<close>
  "AsyncWallet_is_native_token w token =
     and_then (py_getitem (network w) ''token'') (\<lambda>native_token.
     and_then (if isinstance_HexBytes token then py_hex token else Inr []) (\<lambda>dropped.
     and_then (py_upper token) (\<lambda>upper.
       if py_eq upper native_token then Inr True
       else and_then (py_lower token) (\<lambda>lower.
         if py_eq lower native_token then Inr True
         else Inr (py_eq token (PStr ZERO_ADDRESS))))))"

definition BaseWallet_is_native_token :: "'a base_wallet_scheme \<Rightarrow> pyval \<Rightarrow> error + bool" where
  \<comment> \<open>\<^verbatim>\<open>_BaseWallet.is_native_token\<close>: the same body, the test is \<^verbatim>\<open>isinstance(token, bytes)\<close>\<close>
  "BaseWallet_is_native_token w token =
     and_then (py_getitem (network w) ''token'') (\<lambda>native_token.
     and_then (if isinstance_bytes token then py_hex token else Inr []) (\<lambda>dropped.
     and_then (py_upper token) (\<lambda>upper.
       if py_eq upper native_token then Inr True
       else and_then (py_lower token) (\<lambda>lower.
         if py_eq lower native_token then Inr True
         else Inr (py_eq token (PStr ZERO_ADDRESS))))))"

definition AsyncWallet_get_explorer_url :: "web3_env \<Rightarrow> 'a base_wallet_scheme \<Rightarrow> pyval \<Rightarrow> error + string" where
  \<comment> \<open>\<^verbatim>\<open>AsyncWallet.get_explorer_url\<close>\<close>
  "AsyncWallet_get_explorer_url env w transaction_hash =
     and_then (if isinstance_HexBytes transaction_hash then py_hex transaction_hash
               else Inl (TypeError (''Invalid transaction hash type: '' @ type_repr transaction_hash)))
       (\<lambda>hash_str.
     and_then (py_getitem (network w) ''explorer'') (\<lambda>explorer.
       Inr (py_format env explorer @ ''/tx/'' @ hash_str)))"

definition BaseWallet_get_explorer_url :: "web3_env \<Rightarrow> 'a base_wallet_scheme \<Rightarrow> pyval \<Rightarrow> error + string" where
  \<comment> \<open>\<^verbatim>\<open>_BaseWallet.get_explorer_url\<close>: a \<^verbatim>\<open>str\<close> passes through unchanged\<close>
  "BaseWallet_get_explorer_url env w tx_hash =
     and_then (if isinstance_bytes tx_hash then py_hex tx_hash
               else if \<not> isinstance_str tx_hash
               then Inl (TypeError (''Invalid transaction hash type: '' @ type_repr tx_hash))
               else Inr (py_format env tx_hash))
       (\<lambda>hash_str.
     and_then (py_getitem (network w) ''explorer'') (\<lambda>explorer.
       Inr (py_format env explorer @ ''/tx/'' @ hash_str)))"

definition AsyncWallet_get_balance :: "web3_env \<Rightarrow> 'a base_wallet_scheme \<Rightarrow> bool \<Rightarrow> error + pynum" where
  \<comment> \<open>\<^verbatim>\<open>AsyncWallet.get_balance\<close>\<close>
  "AsyncWallet_get_balance env w to_wei =
     and_then (eth_get_balance env (provider w) (public_key w)) (\<lambda>balance.
       Inr (if to_wei then PyInt balance else from_wei env balance ''ether''))"

definition AsyncWallet_get_decimals :: "web3_env \<Rightarrow> 'a base_wallet_scheme \<Rightarrow> pyval \<Rightarrow> error + nat" where
  \<comment> \<open>\<^verbatim>\<open>AsyncWallet.get_decimals\<close>\<close>
  "AsyncWallet_get_decimals env w token =
     and_then (load_token_contract env (provider w) token) (\<lambda>token_contract.
       decimals_call env token_contract)"

text \<open>
  Inside \<^verbatim>\<open>get_balance_of\<close> the decimals come from \<^verbatim>\<open>await self.get_decimals(token)\<close>,
  a call through the object: the method that runs is the one of the class of \<^verbatim>\<open>self\<close>.
  On an \<^verbatim>\<open>AsyncWallet\<close> it is the coroutine \<^verbatim>\<open>AsyncWallet.get_decimals\<close>. On a
  \<^verbatim>\<open>Wallet\<close> it is the synchronous override \<^verbatim>\<open>Wallet.get_decimals\<close>, which calls
  \<^verbatim>\<open>asyncio.run\<close>; at that point the event loop of the outer \<^verbatim>\<open>asyncio.run\<close> is
  running, and \<^verbatim>\<open>asyncio.run\<close> raises instead of starting the coroutine.
\<close>

datatype wallet_class = AsyncWallet_class | Wallet_class

definition asyncio_run_in_running_loop :: "error + 'a \<Rightarrow> error + 'a" where
  \<comment> \<open>\<^verbatim>\<open>asyncio.run(coro)\<close> called from inside a coroutine: a \<^verbatim>\<open>RuntimeError\<close>, and
      \<^verbatim>\<open>coro\<close> never runs\<close>
  "asyncio_run_in_running_loop coro =
     Inl (RuntimeError ''asyncio.run() cannot be called from a running event loop'')"

definition self_get_decimals ::
  "wallet_class \<Rightarrow> web3_env \<Rightarrow> 'a base_wallet_scheme \<Rightarrow> pyval \<Rightarrow> error + nat" where
  \<comment> \<open>\<^verbatim>\<open>await self.get_decimals(token)\<close> inside a coroutine, \<^verbatim>\<open>self\<close> of class \<open>cls\<close>\<close>
  "self_get_decimals cls env w token =
     (case cls of
        AsyncWallet_class \<Rightarrow> AsyncWallet_get_decimals env w token
      | Wallet_class \<Rightarrow> asyncio_run_in_running_loop (AsyncWallet_get_decimals env w token))"

definition AsyncWallet_get_balance_of_on ::
  "wallet_class \<Rightarrow> web3_env \<Rightarrow> 'a base_wallet_scheme \<Rightarrow> pyval \<Rightarrow> bool \<Rightarrow> error + pynum" where
  \<comment> \<open>the body of \<^verbatim>\<open>AsyncWallet.get_balance_of\<close>, run on an object of class \<open>cls\<close>;
      \<^verbatim>\<open>balance /= 10**decimals\<close> turns the integer into a float\<close>
  "AsyncWallet_get_balance_of_on cls env w token convert =
     and_then (load_token_contract env (provider w) token) (\<lambda>token_contract.
     and_then (balanceOf_call env token_contract (public_key w)) (\<lambda>balance.
       if convert then
         and_then (self_get_decimals cls env w token) (\<lambda>decimals.
           Inr (PyFloat (real_of_int balance / 10 ^ decimals)))
       else Inr (PyInt balance)))"

definition AsyncWallet_get_balance_of ::
  "web3_env \<Rightarrow> 'a base_wallet_scheme \<Rightarrow> pyval \<Rightarrow> bool \<Rightarrow> error + pynum" where
  \<comment> \<open>\<^verbatim>\<open>AsyncWallet.get_balance_of\<close> called on an \<^verbatim>\<open>AsyncWallet\<close>\<close>
  "AsyncWallet_get_balance_of env w token convert =
     AsyncWallet_get_balance_of_on AsyncWallet_class env w token convert"

section \<open>Sending a transaction\<close>

definition AsyncWallet_transact ::
  "web3_env \<Rightarrow> async_wallet \<Rightarrow> pyval \<Rightarrow> (error + bytes) \<times> async_wallet" where
  \<comment> \<open>\<^verbatim>\<open>AsyncWallet.transact\<close>: sign, send, then \<^verbatim>\<open>self.__nonce += 1\<close>. The result is
      the outcome (the transaction hash or the exception) and the wallet afterwards.\<close>
  "AsyncWallet_transact env w tx_params =
     (case sign_transaction env tx_params (private_key w) of
        Inl e \<Rightarrow> (Inl e, w)
      | Inr rawTransaction \<Rightarrow>
     (case eth_send_raw_transaction env (provider w) rawTransaction of
        Inl e \<Rightarrow> (Inl e, w)
      | Inr tx_hash \<Rightarrow> (Inr tx_hash, w\<lparr>nonce := nonce w + 1\<rparr>)))"

section \<open>The synchronous wallet\<close>

definition asyncio_run :: "'a \<Rightarrow> 'a" where
  \<comment> \<open>\<^verbatim>\<open>asyncio.run(coro)\<close> called from synchronous code, no event loop running: blocks
      until the coroutine is done and hands over what it returned or raised\<close>
  "asyncio_run coro = coro"

definition Wallet_get_balance :: "web3_env \<Rightarrow> 'a base_wallet_scheme \<Rightarrow> bool \<Rightarrow> error + pynum" where
  \<comment> \<open>\<^verbatim>\<open>Wallet.get_balance\<close>: the coroutine is built by \<^verbatim>\<open>async_method()\<close>, with no
      argument, so \<^verbatim>\<open>to_wei\<close> takes its default \<^verbatim>\<open>False\<close>\<close>
  "Wallet_get_balance env w to_wei = asyncio_run (AsyncWallet_get_balance env w False)"

definition Wallet_get_decimals :: "web3_env \<Rightarrow> 'a base_wallet_scheme \<Rightarrow> pyval \<Rightarrow> error + nat" where
  \<comment> \<open>\<^verbatim>\<open>Wallet.get_decimals\<close> called from synchronous code\<close>
  "Wallet_get_decimals env w token = asyncio_run (AsyncWallet_get_decimals env w token)"

definition Wallet_get_balance_of ::
  "web3_env \<Rightarrow> 'a base_wallet_scheme \<Rightarrow> pyval \<Rightarrow> bool \<Rightarrow> error + pynum" where
  \<comment> \<open>\<^verbatim>\<open>Wallet.get_balance_of\<close>: the coroutine is built by \<^verbatim>\<open>async_method(token)\<close>, so
      \<^verbatim>\<open>convert\<close> takes the default of the asynchronous method, \<^verbatim>\<open>True\<close>; it runs
      with \<^verbatim>\<open>self\<close> the \<^verbatim>\<open>Wallet\<close>\<close>
  "Wallet_get_balance_of env w token convert =
     asyncio_run (AsyncWallet_get_balance_of_on Wallet_class env w token True)"

definition Wallet_transact ::
  "web3_env \<Rightarrow> async_wallet \<Rightarrow> pyval \<Rightarrow> (error + bytes) \<times> async_wallet" where
  \<comment> \<open>\<^verbatim>\<open>Wallet.transact\<close>\<close>
  "Wallet_transact env w tx_params = asyncio_run (AsyncWallet_transact env w tx_params)"

section \<open>A mocked client\<close>

text \<open>
  A fixed client for concrete runs: the local endpoint reports chain id 5 and transaction
  count 7, every other endpoint chain id 1 and transaction count 0; the account holds two
  ether; the token contract reports a raw balance of 1000 with three decimals.
\<close>

definition mock_env :: web3_env where
  "mock_env =
     \<lparr>eth_chain_id =
        (\<lambda>p. Inr (if p = Web3 HTTPProvider (PStr ''http://localhost:8545'') then 5 else 1)),
      eth_get_transaction_count =
        (\<lambda>p a. Inr (if p = Web3 HTTPProvider (PStr ''http://localhost:8545'') then 7 else 0)),
      Account_from_key = (\<lambda>k. Inr ''0x00000000000000000000000000000000000000a1''),
      to_checksum_address = (\<lambda>a. Inr (''0x'' @ str_upper (drop 2 a))),
      sign_transaction = (\<lambda>tx k. Inr [1, 2, 3]),
      eth_send_raw_transaction = (\<lambda>p raw. Inr [0xAB, 0xCD]),
      eth_get_balance = (\<lambda>p a. Inr 2000000000000000000),
      from_wei = (\<lambda>b unit. if b = 0 then PyInt 0 else PyDecimal (real_of_int b / 10 ^ 18)),
      load_token_contract =
        (\<lambda>p t. case t of PStr a \<Rightarrow> Inr (Contract p a) | _ \<Rightarrow> Inl (Web3Error ''invalid address'')),
      balanceOf_call = (\<lambda>c a. Inr 1000),
      decimals_call = (\<lambda>c. Inr 3),
      builtin_str = (\<lambda>v. ''<object>'')\<rparr>"

definition failing_env :: web3_env where
  \<comment> \<open>the same client with a node that rejects every raw transaction\<close>
  "failing_env = mock_env\<lparr>eth_send_raw_transaction := (\<lambda>p raw. Inl (Web3Error ''nonce too low''))\<rparr>"

definition custom_info :: pydict where
  \<comment> \<open>a caller-supplied network info whose chain id (1) is not the one the mocked endpoint
      reports (5)\<close>
  "custom_info =
     [(''network'', PStr ''Local''),
      (''chain_id'', PInt 1),
      (''rpc'', PStr ''http://localhost:8545''),
      (''token'', PStr ''ETH''),
      (''explorer'', PStr ''https://explorer.local'')]"

definition mock_wallet :: async_wallet where
  "mock_wallet =
     \<lparr>network = PDict custom_info,
      provider = AsyncWeb3 AsyncHTTPProvider (PStr ''http://localhost:8545''),
      private_key = ''0x01'',
      account = ''0x00000000000000000000000000000000000000a1'',
      public_key = ''0x00000000000000000000000000000000000000A1'',
      nonce = 7,
      chain_id = 5\<rparr>"

definition mock_base_wallet :: base_wallet where
  "mock_base_wallet =
     \<lparr>network = PDict custom_info,
      provider = Web3 HTTPProvider (PStr ''http://localhost:8545''),
      private_key = ''0x01'',
      account = ''0x00000000000000000000000000000000000000a1'',
      public_key = ''0x00000000000000000000000000000000000000A1'',
      nonce = 7\<rparr>"

definition zero_address_bytes :: bytes where
  \<comment> \<open>the twenty zero bytes of the zero address\<close>
  "zero_address_bytes = [0, 0, 0, 0, 0, 0, 0, 0, 0, 0, 0, 0, 0, 0, 0, 0, 0, 0, 0, 0]"

section \<open>Nonce bookkeeping of \<^verbatim>\<open>transact\<close>\<close>



text \<open>
  Claim C10. Whenever \<^verbatim>\<open>transact\<close> raises, because signing raised or because the node
  refused the raw transaction, the wallet afterwards is the wallet before: the nonce and
  every other attribute are untouched, the increment comes only after the send call has
  returned.
\<close>

theorem transact_failure_keeps_wallet:
  "(AsyncWallet_transact env w tx_params = (Inl e, w') \<longrightarrow> w' = w) \<and>
   (Wallet_transact env w tx_params = (Inl e, w') \<longrightarrow> w' = w)"
  by (auto simp: AsyncWallet_transact_def Wallet_transact_def asyncio_run_def split: sum.splits)

theorem transact_failure_keeps_wallet_witness:
  "AsyncWallet_transact failing_env mock_wallet (PDict []) =
     (Inl (Web3Error ''nonce too low''), mock_wallet) \<and>
   Wallet_transact failing_env mock_wallet (PDict []) =
     (Inl (Web3Error ''nonce too low''), mock_wallet) \<and>
   nonce mock_wallet = 7"
  using transact_failure_keeps_wallet
    [of failing_env mock_wallet "PDict []" "Web3Error ''nonce too low''" mock_wallet]
  by (simp add: AsyncWallet_transact_def Wallet_transact_def asyncio_run_def failing_env_def
      mock_env_def mock_wallet_def)

section \<open>Switching the network\<close>



section \<open>Explorer links\<close>

lemma bytes_hex_Nil: "bytes_hex [] = []"
  by (simp add: bytes_hex_def)

lemma bytes_hex_Cons:
  "bytes_hex (b # bs) =
     [''0123456789abcdef'' ! (unat b div 16), ''0123456789abcdef'' ! (unat b mod 16)] @ bytes_hex bs"
  by (simp add: bytes_hex_def hex_digit_def)

text \<open>
  Claim C7, as amended. For a wallet whose network info carries an explorer URL and a
  transaction hash given as a \<^verbatim>\<open>HexBytes\<close>, \<^verbatim>\<open>get_explorer_url\<close> returns exactly the
  explorer URL, then \<^verbatim>\<open>/tx/\<close>, then the hexadecimal form of the hash: \<^verbatim>\<open>0x\<close> and two
  lower-case digits for every byte, the high one first. \<^verbatim>\<open>_BaseWallet\<close> does the same
  for a plain \<^verbatim>\<open>bytes\<close>, whose hexadecimal form has no prefix. \<^verbatim>\<open>AsyncWallet\<close> and
  \<^verbatim>\<open>Wallet\<close> accept a \<^verbatim>\<open>HexBytes\<close> only: for a plain \<^verbatim>\<open>bytes\<close> they raise the
  \<^verbatim>\<open>TypeError\<close> "Invalid transaction hash type".
\<close>

theorem explorer_url_format:
  "(py_getitem (network w) ''explorer'' = Inr (PStr explorer) \<longrightarrow>
      AsyncWallet_get_explorer_url env w (PHexBytes h) =
        Inr (explorer @ ''/tx/'' @ ''0x'' @ bytes_hex h) \<and>
      BaseWallet_get_explorer_url env w (PHexBytes h) =
        Inr (explorer @ ''/tx/'' @ ''0x'' @ bytes_hex h) \<and>
      BaseWallet_get_explorer_url env w (PBytes h) = Inr (explorer @ ''/tx/'' @ bytes_hex h)) \<and>
   AsyncWallet_get_explorer_url env w (PBytes h) =
     Inl (TypeError (''Invalid transaction hash type: <class '' @ [CHR 0x27] @ ''bytes''
                     @ [CHR 0x27] @ ''>'')) \<and>
   bytes_hex [] = [] \<and>
   bytes_hex (b # bs) =
     [''0123456789abcdef'' ! (unat b div 16), ''0123456789abcdef'' ! (unat b mod 16)] @ bytes_hex bs"
proof (intro conjI impI)
  assume "py_getitem (network w) ''explorer'' = Inr (PStr explorer)"
  then show "AsyncWallet_get_explorer_url env w (PHexBytes h) =
        Inr (explorer @ ''/tx/'' @ ''0x'' @ bytes_hex h)"
    and "BaseWallet_get_explorer_url env w (PHexBytes h) =
        Inr (explorer @ ''/tx/'' @ ''0x'' @ bytes_hex h)"
    and "BaseWallet_get_explorer_url env w (PBytes h) = Inr (explorer @ ''/tx/'' @ bytes_hex h)"
    by (simp_all add: AsyncWallet_get_explorer_url_def BaseWallet_get_explorer_url_def py_hex_def
        HexBytes_hex_def isinstance_HexBytes_def isinstance_bytes_def py_format_def)
next
  show "AsyncWallet_get_explorer_url env w (PBytes h) =
     Inl (TypeError (''Invalid transaction hash type: <class '' @ [CHR 0x27] @ ''bytes''
                     @ [CHR 0x27] @ ''>''))"
    by (simp add: AsyncWallet_get_explorer_url_def isinstance_HexBytes_def type_repr_def
        type_name_def)
next
  show "bytes_hex [] = []" by (rule bytes_hex_Nil)
next
  show "bytes_hex (b # bs) =
     [''0123456789abcdef'' ! (unat b div 16), ''0123456789abcdef'' ! (unat b mod 16)] @ bytes_hex bs"
    by (rule bytes_hex_Cons)
qed

theorem explorer_url_format_witness:
  "py_getitem (network mock_wallet) ''explorer'' = Inr (PStr ''https://explorer.local'') \<and>
   AsyncWallet_get_explorer_url mock_env mock_wallet (PHexBytes [0x01, 0xFF, 0x3C]) =
     Inr ''https://explorer.local/tx/0x01ff3c'' \<and>
   BaseWallet_get_explorer_url mock_env mock_wallet (PHexBytes [0x01, 0xFF, 0x3C]) =
     Inr ''https://explorer.local/tx/0x01ff3c'' \<and>
   BaseWallet_get_explorer_url mock_env mock_wallet (PBytes [0x01, 0xFF, 0x3C]) =
     Inr ''https://explorer.local/tx/01ff3c'' \<and>
   bytes_hex [0x01, 0xFF, 0x3C] = ''01ff3c'' \<and>
   bytes_hex [0xAB, 0xCD] = ''abcd''"
proof -
  have e: "py_getitem (network mock_wallet) ''explorer'' = Inr (PStr ''https://explorer.local'')"
    by (simp add: py_getitem_def getitem_def mock_wallet_def custom_info_def)
  have h1: "bytes_hex [0x01, 0xFF, 0x3C] = ''01ff3c''"
    by (simp add: bytes_hex_def hex_digit_def)
  have h2: "bytes_hex [0xAB, 0xCD] = ''abcd''"
    by (simp add: bytes_hex_def hex_digit_def)
  from explorer_url_format
         [of mock_wallet "''https://explorer.local''" mock_env "[0x01, 0xFF, 0x3C]"] e h1
  have "AsyncWallet_get_explorer_url mock_env mock_wallet (PHexBytes [0x01, 0xFF, 0x3C]) =
          Inr ''https://explorer.local/tx/0x01ff3c'' \<and>
        BaseWallet_get_explorer_url mock_env mock_wallet (PHexBytes [0x01, 0xFF, 0x3C]) =
          Inr ''https://explorer.local/tx/0x01ff3c'' \<and>
        BaseWallet_get_explorer_url mock_env mock_wallet (PBytes [0x01, 0xFF, 0x3C]) =
          Inr ''https://explorer.local/tx/01ff3c''"
    by simp
  with e h1 h2 show ?thesis by simp
qed

text \<open>
  The claim as first stated, for every wallet and every hash given as bytes, fails on
  \<^verbatim>\<open>AsyncWallet\<close> and \<^verbatim>\<open>Wallet\<close>: a hash given as a plain \<^verbatim>\<open>bytes\<close> yields no URL.
\<close>

theorem AsyncWallet_get_explorer_url_rejects_plain_bytes:
  "py_getitem (network mock_wallet) ''explorer'' = Inr (PStr ''https://explorer.local'') \<and>
   AsyncWallet_get_explorer_url mock_env mock_wallet (PBytes [0xAB, 0xCD]) =
     Inl (TypeError (''Invalid transaction hash type: <class '' @ [CHR 0x27] @ ''bytes''
                     @ [CHR 0x27] @ ''>'')) \<and>
   AsyncWallet_get_explorer_url mock_env mock_wallet (PBytes [0xAB, 0xCD]) \<noteq>
     Inr (''https://explorer.local'' @ ''/tx/'' @ bytes_hex [0xAB, 0xCD])"
  by (simp add: py_getitem_def getitem_def mock_wallet_def custom_info_def
      AsyncWallet_get_explorer_url_def isinstance_HexBytes_def type_repr_def type_name_def)

text \<open>
  Claim C8. An argument of \<^verbatim>\<open>get_explorer_url\<close> whose type is not an accepted
  representation of a transaction hash (anything but \<^verbatim>\<open>HexBytes\<close> for \<^verbatim>\<open>AsyncWallet\<close>,
  anything but a byte string or a \<^verbatim>\<open>str\<close> for \<^verbatim>\<open>_BaseWallet\<close>) makes the call raise
  the \<^verbatim>\<open>TypeError\<close> "Invalid transaction hash type", whatever the wallet; no URL is
  returned.
\<close>

theorem explorer_url_rejects_other_types:
  "(\<not> isinstance_HexBytes x \<longrightarrow>
      AsyncWallet_get_explorer_url env w x =
        Inl (TypeError (''Invalid transaction hash type: '' @ type_repr x))) \<and>
   (\<not> isinstance_bytes x \<and> \<not> isinstance_str x \<longrightarrow>
      BaseWallet_get_explorer_url env w x =
        Inl (TypeError (''Invalid transaction hash type: '' @ type_repr x)))"
  by (simp add: AsyncWallet_get_explorer_url_def BaseWallet_get_explorer_url_def)

theorem explorer_url_rejects_other_types_witness:
  "\<not> isinstance_HexBytes (PInt 5) \<and> \<not> isinstance_bytes (PInt 5) \<and> \<not> isinstance_str (PInt 5) \<and>
   AsyncWallet_get_explorer_url mock_env mock_wallet (PInt 5) =
     Inl (TypeError (''Invalid transaction hash type: <class '' @ [CHR 0x27] @ ''int'' @ [CHR 0x27] @ ''>'')) \<and>
   BaseWallet_get_explorer_url mock_env mock_wallet (PInt 5) =
     Inl (TypeError (''Invalid transaction hash type: <class '' @ [CHR 0x27] @ ''int'' @ [CHR 0x27] @ ''>''))"
  using explorer_url_rejects_other_types [of "PInt 5" mock_env mock_wallet]
  by (simp add: isinstance_HexBytes_def isinstance_bytes_def isinstance_str_def type_repr_def type_name_def)

section \<open>Validation of the network argument\<close>

lemma in_literal_Network_iff:
  "in_literal v (Network nmap) \<longleftrightarrow> (\<exists>s e. v = PStr s \<and> map_of nmap s = Some e)"
proof (cases v)
  case (PStr s)
  have "s \<in> fst ` set nmap \<longleftrightarrow> (\<exists>e. map_of nmap s = Some e)"
    using map_of_eq_None_iff [of nmap s] by auto
  then show ?thesis using PStr by (simp add: in_literal_def Network_def)
qed (simp_all add: in_literal_def)

lemma has_keys_dict: "has_keys v keys \<Longrightarrow> \<exists>d. v = PDict d"
  by (cases v) (simp_all add: has_keys_def)

lemma has_keys_not_in_literal: "has_keys v keys \<Longrightarrow> \<not> in_literal v names"
  by (cases v) (simp_all add: has_keys_def in_literal_def)

lemma network_map_entries_no_network_key:
  "list_all (\<lambda>ne. map_of (snd ne) ''network'' = None) network_map"
  by (simp add: network_map_def)

lemma table_entry_no_network_key:
  assumes "list_all (\<lambda>ne. map_of (snd ne) ''network'' = None) nmap" and "map_of nmap s = Some e"
  shows "map_of e ''network'' = None"
proof -
  from assms(2) have "(s, e) \<in> set nmap" by (rule map_of_SomeD)
  with assms(1) show ?thesis by (auto simp: list_all_iff)
qed

lemma AsyncWallet_validate_recognized:
  assumes "map_of nmap s = Some e"
    and "list_all (\<lambda>ne. map_of (snd ne) ''network'' = None) nmap"
  shows "AsyncWallet_validate_network nmap (PStr s) = Inr (PDict ((''network'', PStr s) # e))"
proof -
  from assms(1) have "in_literal (PStr s) (Network nmap)"
    by (auto simp: in_literal_Network_iff)
  moreover from assms(2,1) have "map_of e ''network'' = None"
    by (rule table_entry_no_network_key)
  ultimately show ?thesis using assms(1)
    by (simp add: AsyncWallet_validate_network_def table_getitem_def NetworkInfo_call_def)
qed

lemma BaseWallet_validate_recognized:
  assumes "map_of network_map s = Some e"
  shows "BaseWallet_validate_network env (PStr s) = Inr (PDict ((''network'', PStr s) # e))"
proof -
  from assms have "in_literal (PStr s) (Network network_map)"
    by (auto simp: in_literal_Network_iff)
  moreover from network_map_entries_no_network_key assms have "map_of e ''network'' = None"
    by (rule table_entry_no_network_key)
  ultimately show ?thesis using assms
    by (simp add: BaseWallet_validate_network_def table_getitem_def NetworkInfo_call_def)
qed

text \<open>
  Claim C6. A network argument that is neither a recognized name of the static table nor a
  dictionary with every key of a network info makes validation raise the error for an
  invalid network specification (\<^verbatim>\<open>InvalidNetworkInfo\<close> in \<^verbatim>\<open>AsyncWallet\<close>, the
  \<^verbatim>\<open>TypeError\<close> "Network information must be represented as ..." in \<^verbatim>\<open>_BaseWallet\<close>),
  and with it the constructor and the network setter. The recognized arguments are exactly
  the names \<open>s\<close> that the table maps to an entry \<open>e\<close>, and such a name validates to that
  very entry \<open>e\<close> with the name added under \<^verbatim>\<open>network\<close>; a complete dictionary validates
  to itself. For \<^verbatim>\<open>AsyncWallet\<close> the table is a parameter, assumed to have no entry that
  already carries the key \<^verbatim>\<open>network\<close>.
\<close>

theorem validate_network_outcomes:
  "(\<not> in_literal v (Network nmap) \<and> \<not> has_keys v NetworkInfo_keys \<longrightarrow>
      AsyncWallet_validate_network nmap v = Inl (InvalidNetworkInfo v) \<and>
      AsyncWallet_init env nmap key v = Inl (InvalidNetworkInfo v) \<and>
      Wallet_init env nmap key v = Inl (InvalidNetworkInfo v) \<and>
      AsyncWallet_set_network env nmap w v = (Inl (InvalidNetworkInfo v), w)) \<and>
   (\<not> in_literal v (Network network_map) \<and> \<not> has_keys v NetworkInfo_keys \<longrightarrow>
      (let msg = ''Network information must be represented as NetworkInfo type or name of a supported ''
                 @ ''network. You provided value: '' @ py_format env v
       in BaseWallet_validate_network env v = Inl (TypeError msg) \<and>
          BaseWallet_init env key v is_async = Inl (TypeError msg) \<and>
          BaseWallet_set_network env b v = (Inl (TypeError msg), b))) \<and>
   (in_literal v (Network nmap) \<longleftrightarrow> (\<exists>s e. v = PStr s \<and> map_of nmap s = Some e)) \<and>
   (map_of nmap s = Some e \<and> list_all (\<lambda>ne. map_of (snd ne) ''network'' = None) nmap \<longrightarrow>
      AsyncWallet_validate_network nmap (PStr s) = Inr (PDict ((''network'', PStr s) # e))) \<and>
   (map_of network_map s = Some e \<longrightarrow>
      BaseWallet_validate_network env (PStr s) = Inr (PDict ((''network'', PStr s) # e))) \<and>
   (has_keys v NetworkInfo_keys \<longrightarrow>
      AsyncWallet_validate_network nmap v = Inr v \<and> BaseWallet_validate_network env v = Inr v)"
proof (intro conjI impI)
  show "in_literal v (Network nmap) \<longleftrightarrow> (\<exists>s e. v = PStr s \<and> map_of nmap s = Some e)"
    by (rule in_literal_Network_iff)
next
  assume "map_of nmap s = Some e \<and> list_all (\<lambda>ne. map_of (snd ne) ''network'' = None) nmap"
  then show "AsyncWallet_validate_network nmap (PStr s) = Inr (PDict ((''network'', PStr s) # e))"
    using AsyncWallet_validate_recognized by blast
next
  assume "map_of network_map s = Some e"
  then show "BaseWallet_validate_network env (PStr s) = Inr (PDict ((''network'', PStr s) # e))"
    by (rule BaseWallet_validate_recognized)
next
  assume "has_keys v NetworkInfo_keys"
  then show "AsyncWallet_validate_network nmap v = Inr v"
    by (simp add: AsyncWallet_validate_network_def has_keys_not_in_literal)
next
  assume "has_keys v NetworkInfo_keys"
  then show "BaseWallet_validate_network env v = Inr v"
    by (simp add: BaseWallet_validate_network_def has_keys_not_in_literal)
qed (simp_all add: AsyncWallet_validate_network_def BaseWallet_validate_network_def
      AsyncWallet_init_def Wallet_init_def BaseWallet_init_def AsyncWallet_set_network_def
      BaseWallet_set_network_def Let_def)

theorem validate_network_outcomes_witness:
  "\<not> in_literal (PStr ''Mainnet'') (Network network_map) \<and>
   \<not> has_keys (PStr ''Mainnet'') NetworkInfo_keys \<and>
   AsyncWallet_init mock_env network_map ''0x01'' (PStr ''Mainnet'') =
     Inl (InvalidNetworkInfo (PStr ''Mainnet'')) \<and>
   BaseWallet_init mock_env ''0x01'' (PStr ''Mainnet'') False =
     Inl (TypeError (''Network information must be represented as NetworkInfo type or name of a supported ''
                     @ ''network. You provided value: Mainnet'')) \<and>
   in_literal (PStr ''Polygon'') (Network network_map) \<and>
   list_all (\<lambda>ne. map_of (snd ne) ''network'' = None) network_map \<and>
   map_of network_map ''Polygon'' =
     Some [(''chain_id'', PInt 137), (''rpc'', PStr ''wss://polygon-bor-rpc.publicnode.com''),
           (''token'', PStr ''MATIC''), (''explorer'', PStr ''https://polygonscan.com'')] \<and>
   AsyncWallet_validate_network network_map (PStr ''Polygon'') =
     Inr (PDict [(''network'', PStr ''Polygon''), (''chain_id'', PInt 137),
                 (''rpc'', PStr ''wss://polygon-bor-rpc.publicnode.com''),
                 (''token'', PStr ''MATIC''), (''explorer'', PStr ''https://polygonscan.com'')]) \<and>
   BaseWallet_validate_network mock_env (PStr ''Polygon'') =
     Inr (PDict [(''network'', PStr ''Polygon''), (''chain_id'', PInt 137),
                 (''rpc'', PStr ''wss://polygon-bor-rpc.publicnode.com''),
                 (''token'', PStr ''MATIC''), (''explorer'', PStr ''https://polygonscan.com'')]) \<and>
   map_of network_map ''BSC'' =
     Some [(''chain_id'', PInt 56), (''rpc'', PStr ''wss://bsc-rpc.publicnode.com''),
           (''token'', PStr ''BNB''), (''explorer'', PStr ''https://bscscan.com'')] \<and>
   AsyncWallet_validate_network network_map (PStr ''BSC'') =
     Inr (PDict [(''network'', PStr ''BSC''), (''chain_id'', PInt 56),
                 (''rpc'', PStr ''wss://bsc-rpc.publicnode.com''),
                 (''token'', PStr ''BNB''), (''explorer'', PStr ''https://bscscan.com'')]) \<and>
   BaseWallet_validate_network mock_env (PStr ''BSC'') =
     Inr (PDict [(''network'', PStr ''BSC''), (''chain_id'', PInt 56),
                 (''rpc'', PStr ''wss://bsc-rpc.publicnode.com''),
                 (''token'', PStr ''BNB''), (''explorer'', PStr ''https://bscscan.com'')]) \<and>
   has_keys (PDict custom_info) NetworkInfo_keys \<and>
   AsyncWallet_validate_network network_map (PDict custom_info) = Inr (PDict custom_info) \<and>
   BaseWallet_validate_network mock_env (PDict custom_info) = Inr (PDict custom_info)"
proof -
  note outcomes = validate_network_outcomes
    [where nmap = network_map and env = mock_env and key = "''0x01''" and is_async = False
       and w = mock_wallet and b = mock_base_wallet]
  have m1: "\<not> in_literal (PStr ''Mainnet'') (Network network_map)"
    by (simp add: in_literal_def Network_def network_map_def)
  have m2: "\<not> has_keys (PStr ''Mainnet'') NetworkInfo_keys"
    by (simp add: has_keys_def)
  have m3: "BaseWallet_validate_network mock_env (PStr ''Mainnet'') =
     Inl (TypeError (''Network information must be represented as NetworkInfo type or name of a supported ''
                     @ ''network. You provided value: Mainnet''))"
    by (simp add: BaseWallet_validate_network_def m1 m2 py_format_def)
  have m4: "py_format mock_env (PStr ''Mainnet'') = ''Mainnet''"
    by (simp add: py_format_def)
  have p2: "list_all (\<lambda>ne. map_of (snd ne) ''network'' = None) network_map"
    by (simp add: network_map_def)
  have p3: "map_of network_map ''Polygon'' =
     Some [(''chain_id'', PInt 137), (''rpc'', PStr ''wss://polygon-bor-rpc.publicnode.com''),
           (''token'', PStr ''MATIC''), (''explorer'', PStr ''https://polygonscan.com'')]"
    by (simp add: network_map_def)
  have b3: "map_of network_map ''BSC'' =
     Some [(''chain_id'', PInt 56), (''rpc'', PStr ''wss://bsc-rpc.publicnode.com''),
           (''token'', PStr ''BNB''), (''explorer'', PStr ''https://bscscan.com'')]"
    by (simp add: network_map_def)
  have k: "has_keys (PDict custom_info) NetworkInfo_keys"
    by (simp add: has_keys_def NetworkInfo_keys_def custom_info_def)
  from outcomes [where v = "PStr ''Mainnet''"] m1 m2 m3 m4
  have neg: "AsyncWallet_init mock_env network_map ''0x01'' (PStr ''Mainnet'') =
               Inl (InvalidNetworkInfo (PStr ''Mainnet'')) \<and>
             BaseWallet_init mock_env ''0x01'' (PStr ''Mainnet'') False =
               Inl (TypeError (''Network information must be represented as NetworkInfo type or name of a supported ''
                     @ ''network. You provided value: Mainnet''))"
    by (simp add: Let_def)
  from outcomes
         [where v = "PStr ''Polygon''" and s = "''Polygon''"
            and e = "[(''chain_id'', PInt 137), (''rpc'', PStr ''wss://polygon-bor-rpc.publicnode.com''),
                      (''token'', PStr ''MATIC''), (''explorer'', PStr ''https://polygonscan.com'')]"]
       p2 p3
  have name: "in_literal (PStr ''Polygon'') (Network network_map) \<and>
   AsyncWallet_validate_network network_map (PStr ''Polygon'') =
     Inr (PDict [(''network'', PStr ''Polygon''), (''chain_id'', PInt 137),
                 (''rpc'', PStr ''wss://polygon-bor-rpc.publicnode.com''),
                 (''token'', PStr ''MATIC''), (''explorer'', PStr ''https://polygonscan.com'')]) \<and>
   BaseWallet_validate_network mock_env (PStr ''Polygon'') =
     Inr (PDict [(''network'', PStr ''Polygon''), (''chain_id'', PInt 137),
                 (''rpc'', PStr ''wss://polygon-bor-rpc.publicnode.com''),
                 (''token'', PStr ''MATIC''), (''explorer'', PStr ''https://polygonscan.com'')])"
    by auto
  from outcomes
         [where v = "PStr ''BSC''" and s = "''BSC''"
            and e = "[(''chain_id'', PInt 56), (''rpc'', PStr ''wss://bsc-rpc.publicnode.com''),
                      (''token'', PStr ''BNB''), (''explorer'', PStr ''https://bscscan.com'')]"]
       p2 b3
  have name': "AsyncWallet_validate_network network_map (PStr ''BSC'') =
     Inr (PDict [(''network'', PStr ''BSC''), (''chain_id'', PInt 56),
                 (''rpc'', PStr ''wss://bsc-rpc.publicnode.com''),
                 (''token'', PStr ''BNB''), (''explorer'', PStr ''https://bscscan.com'')]) \<and>
   BaseWallet_validate_network mock_env (PStr ''BSC'') =
     Inr (PDict [(''network'', PStr ''BSC''), (''chain_id'', PInt 56),
                 (''rpc'', PStr ''wss://bsc-rpc.publicnode.com''),
                 (''token'', PStr ''BNB''), (''explorer'', PStr ''https://bscscan.com'')])"
    by auto
  from outcomes [where v = "PDict custom_info"] k
  have info: "AsyncWallet_validate_network network_map (PDict custom_info) = Inr (PDict custom_info) \<and>
              BaseWallet_validate_network mock_env (PDict custom_info) = Inr (PDict custom_info)"
    by blast
  from m1 m2 neg p2 p3 b3 name name' k info show ?thesis by blast
qed

section \<open>The chain id at construction\<close>

lemma py_eq_PInt: "py_eq (PInt i) v \<longleftrightarrow> v = PInt i"
  by (cases v) (auto simp: py_eq_def)

lemma BaseWallet_validate_chain_id_mismatch:
  assumes "map_of d ''chain_id'' = Some given" and "given \<noteq> PNone" and "given \<noteq> PInt live"
    and "map_of d ''network'' = Some (PStr name)"
    and "eth_chain_id env prov = Inr live"
  shows "BaseWallet_validate_chain_id env (PDict d) prov =
           Inl (ValueError (''Chain id in network info must be equal to the chain. Try to find it by: ''
                            @ ''https://chainlist.org/?search='' @ str_lower name))"
  using assms
  by (simp add: BaseWallet_validate_chain_id_def py_getitem_def getitem_def py_eq_PInt
      py_lower_def py_format_def)

lemma BaseWallet_validate_chain_id_match:
  assumes "map_of d ''chain_id'' = Some (PInt live)"
    and "eth_chain_id env prov = Inr live"
  shows "BaseWallet_validate_chain_id env (PDict d) prov =
           Inr (PDict (AList.update ''chain_id'' (PInt live) d))"
  using assms
  by (simp add: BaseWallet_validate_chain_id_def py_getitem_def getitem_def py_eq_PInt
      py_setitem_def)

lemma BaseWallet_init_misspelled_chain_id_key:
  \<comment> \<open>the table entries that spell the key \<^verbatim>\<open>chaind_id\<close> validate, but the chain id check
      then looks up \<^verbatim>\<open>chain_id\<close>\<close>
  assumes "eth_chain_id env (Web3 WebsocketProvider (PStr ''wss://opbnb-rpc.publicnode.com'')) = Inr live"
  shows "BaseWallet_init env key (PStr ''opBNB'') is_async = Inl (KeyError ''chain_id'')"
proof -
  have "BaseWallet_validate_network env (PStr ''opBNB'') =
          Inr (PDict [(''network'', PStr ''opBNB''), (''chaind_id'', PInt 204),
                      (''rpc'', PStr ''wss://opbnb-rpc.publicnode.com''), (''token'', PStr ''BNB''),
                      (''explorer'', PStr ''https://opbnb.bscscan.com/'')])"
    by (simp add: BaseWallet_validate_network_def in_literal_def Network_def network_map_def
        table_getitem_def NetworkInfo_call_def)
  with assms show ?thesis
    by (simp add: BaseWallet_init_def py_getitem_def getitem_def startswith_def
        BaseWallet_validate_chain_id_def)
qed

lemma and_then_Inr_iff: "and_then x f = Inr y \<longleftrightarrow> (\<exists>a. x = Inr a \<and> f a = Inr y)"
  by (cases x) simp_all

lemma AsyncWallet_init_records_live_chain_id:
  assumes "has_keys (PDict d) NetworkInfo_keys" and "map_of d ''rpc'' = Some rpc"
    and "AsyncWallet_init env nmap key (PDict d) = Inr w"
  shows "network w = PDict d \<and> eth_chain_id env (Web3 HTTPProvider rpc) = Inr (chain_id w)"
proof -
  have v: "AsyncWallet_validate_network nmap (PDict d) = Inr (PDict d)"
    using assms(1) by (simp add: AsyncWallet_validate_network_def has_keys_not_in_literal)
  have r: "py_getitem (PDict d) ''rpc'' = Inr rpc"
    using assms(2) by (simp add: py_getitem_def getitem_def)
  from assms(3) show ?thesis
    by (auto simp: AsyncWallet_init_def v r Let_def and_then_Inr_iff)
qed

text \<open>
  Claim C2, as amended. Constructing a \<^verbatim>\<open>_BaseWallet\<close> from an explicit, complete network
  info that supplies a chain id (a value other than \<^verbatim>\<open>None\<close>): if the supplied chain id
  is not the one the endpoint reports, the constructor raises the \<^verbatim>\<open>ValueError\<close> "Chain id
  in network info must be equal to the chain"; if it is, the check passes and the constructor
  goes on to build the wallet whenever the key and the transaction count can be obtained.
  \<^verbatim>\<open>AsyncWallet.__init__\<close> compares nothing: when it succeeds it keeps the network info as
  given and records the chain id of the endpoint in an attribute of its own.
\<close>

theorem BaseWallet_init_chain_id_check:
  assumes "has_keys (PDict d) NetworkInfo_keys"
    and "map_of d ''chain_id'' = Some given" and "given \<noteq> PNone"
    and "map_of d ''rpc'' = Some (PStr rpc)"
    and "map_of d ''network'' = Some (PStr name)"
    and "eth_chain_id env (BaseWallet_temp_provider rpc) = Inr live"
  shows "(given \<noteq> PInt live \<longrightarrow>
            BaseWallet_init env key (PDict d) is_async =
              Inl (ValueError (''Chain id in network info must be equal to the chain. Try to find it by: ''
                               @ ''https://chainlist.org/?search='' @ str_lower name))) \<and>
         (given = PInt live \<longrightarrow>
            BaseWallet_validate_chain_id env (PDict d) (BaseWallet_temp_provider rpc) =
              Inr (PDict (AList.update ''chain_id'' (PInt live) d)) \<and>
            (\<forall>address pk count.
               Account_from_key env key = Inr address \<and>
               to_checksum_address env address = Inr pk \<and>
               eth_get_transaction_count env (BaseWallet_temp_provider rpc) pk = Inr count \<longrightarrow>
               (\<exists>prov. BaseWallet_init env key (PDict d) is_async =
                  Inr \<lparr>network = PDict (AList.update ''chain_id'' (PInt live) d), provider = prov,
                       private_key = key, account = address, public_key = pk, nonce = count\<rparr>))) \<and>
         (\<forall>nmap w. AsyncWallet_init env nmap key (PDict d) = Inr w \<longrightarrow>
            network w = PDict d \<and>
            eth_chain_id env (Web3 HTTPProvider (PStr rpc)) = Inr (chain_id w))"
proof -
  have v: "BaseWallet_validate_network env (PDict d) = Inr (PDict d)"
    using assms(1) by (simp add: BaseWallet_validate_network_def has_keys_not_in_literal)
  have r: "py_getitem (PDict d) ''rpc'' = Inr (PStr rpc)"
    using assms(4) by (simp add: py_getitem_def getitem_def)
  have s: "startswith (PStr rpc) ''wss://'' = Inr (take (length ''wss://'') rpc = ''wss://'')"
    unfolding startswith_def by simp
  show ?thesis
  proof (intro conjI impI allI)
    assume ne: "given \<noteq> PInt live"
    have "BaseWallet_validate_chain_id env (PDict d) (BaseWallet_temp_provider rpc) =
           Inl (ValueError (''Chain id in network info must be equal to the chain. Try to find it by: ''
                            @ ''https://chainlist.org/?search='' @ str_lower name))"
      using assms(2,3) ne assms(5,6) by (rule BaseWallet_validate_chain_id_mismatch)
    then show "BaseWallet_init env key (PDict d) is_async =
              Inl (ValueError (''Chain id in network info must be equal to the chain. Try to find it by: ''
                               @ ''https://chainlist.org/?search='' @ str_lower name))"
      by (simp add: BaseWallet_init_def v r s BaseWallet_temp_provider_def Let_def)
  next
    assume eq: "given = PInt live"
    show c: "BaseWallet_validate_chain_id env (PDict d) (BaseWallet_temp_provider rpc) =
              Inr (PDict (AList.update ''chain_id'' (PInt live) d))"
      using assms(2) assms(6) unfolding eq by (rule BaseWallet_validate_chain_id_match)
    fix address pk count
    assume "Account_from_key env key = Inr address \<and>
               to_checksum_address env address = Inr pk \<and>
               eth_get_transaction_count env (BaseWallet_temp_provider rpc) pk = Inr count"
    with c show "\<exists>prov. BaseWallet_init env key (PDict d) is_async =
                  Inr \<lparr>network = PDict (AList.update ''chain_id'' (PInt live) d), provider = prov,
                       private_key = key, account = address, public_key = pk, nonce = count\<rparr>"
      by (auto simp add: BaseWallet_init_def v r s BaseWallet_temp_provider_def Let_def)
  next
    fix nmap w
    assume "AsyncWallet_init env nmap key (PDict d) = Inr w"
    with assms(1,4) show "network w = PDict d"
      and "eth_chain_id env (Web3 HTTPProvider (PStr rpc)) = Inr (chain_id w)"
      using AsyncWallet_init_records_live_chain_id by blast+
  qed
qed

theorem BaseWallet_init_chain_id_check_witness:
  "has_keys (PDict custom_info) NetworkInfo_keys \<and>
   map_of custom_info ''chain_id'' = Some (PInt 1) \<and>
   eth_chain_id mock_env (BaseWallet_temp_provider ''http://localhost:8545'') = Inr 5 \<and>
   BaseWallet_init mock_env ''0x01'' (PDict custom_info) False =
     Inl (ValueError (''Chain id in network info must be equal to the chain. Try to find it by: ''
                      @ ''https://chainlist.org/?search=local'')) \<and>
   BaseWallet_validate_chain_id mock_env (PDict (AList.update ''chain_id'' (PInt 5) custom_info))
       (BaseWallet_temp_provider ''http://localhost:8545'') =
     Inr (PDict (AList.update ''chain_id'' (PInt 5) custom_info)) \<and>
   BaseWallet_init mock_env ''0x01'' (PDict (AList.update ''chain_id'' (PInt 5) custom_info)) False =
     Inr (mock_base_wallet\<lparr>network := PDict (AList.update ''chain_id'' (PInt 5) custom_info)\<rparr>) \<and>
   AsyncWallet_init mock_env [] ''0x01'' (PDict custom_info) = Inr mock_wallet \<and>
   chain_id mock_wallet = 5"
proof -
  let ?d = "AList.update ''chain_id'' (PInt 5) custom_info"
  have k': "has_keys (PDict ?d) NetworkInfo_keys"
    by (simp add: has_keys_def NetworkInfo_keys_def custom_info_def)
  have c': "map_of ?d ''chain_id'' = Some (PInt 5)"
    by (simp add: custom_info_def)
  have r': "map_of ?d ''rpc'' = Some (PStr ''http://localhost:8545'')"
    by (simp add: custom_info_def)
  have n': "map_of ?d ''network'' = Some (PStr ''Local'')"
    by (simp add: custom_info_def)
  have u: "AList.update ''chain_id'' (PInt 5) ?d = ?d"
    by (simp add: custom_info_def)
  have b: "BaseWallet_init mock_env ''0x01'' (PDict ?d) False =
             Inr (mock_base_wallet\<lparr>network := PDict ?d\<rparr>)"
    by (simp add: BaseWallet_init_def BaseWallet_validate_network_def
        BaseWallet_validate_chain_id_def in_literal_def has_keys_def NetworkInfo_keys_def
        custom_info_def py_getitem_def getitem_def py_setitem_def py_eq_def startswith_def
        mock_env_def mock_base_wallet_def str_upper_def py_upper_char_def)
  have k: "has_keys (PDict custom_info) NetworkInfo_keys"
    by (simp add: has_keys_def NetworkInfo_keys_def custom_info_def)
  have c: "map_of custom_info ''chain_id'' = Some (PInt 1)"
    by (simp add: custom_info_def)
  have r: "map_of custom_info ''rpc'' = Some (PStr ''http://localhost:8545'')"
    by (simp add: custom_info_def)
  have n: "map_of custom_info ''network'' = Some (PStr ''Local'')"
    by (simp add: custom_info_def)
  have l: "eth_chain_id mock_env (BaseWallet_temp_provider ''http://localhost:8545'') = Inr 5"
    by (simp add: mock_env_def BaseWallet_temp_provider_def)
  have low: "str_lower ''Local'' = ''local''"
    by (simp add: str_lower_def py_lower_char_def)
  have a: "AsyncWallet_init mock_env [] ''0x01'' (PDict custom_info) = Inr mock_wallet"
    by (simp add: AsyncWallet_init_def AsyncWallet_validate_network_def in_literal_def
        has_keys_def NetworkInfo_keys_def custom_info_def py_getitem_def getitem_def mock_env_def
        mock_wallet_def str_upper_def py_upper_char_def)
  have "PInt 1 \<noteq> PNone" by simp
  from BaseWallet_init_chain_id_check [OF k c this r n l, of "''0x01''" False]
  have "BaseWallet_init mock_env ''0x01'' (PDict custom_info) False =
     Inl (ValueError (''Chain id in network info must be equal to the chain. Try to find it by: ''
                      @ ''https://chainlist.org/?search=local''))"
    by (simp add: low)
  moreover have "PInt 5 \<noteq> PNone" by simp
  from BaseWallet_init_chain_id_check [OF k' c' this r' n' l, of "''0x01''" False]
  have "BaseWallet_validate_chain_id mock_env (PDict ?d) (BaseWallet_temp_provider ''http://localhost:8545'') =
          Inr (PDict ?d)"
    by (simp add: u)
  ultimately show ?thesis using k c l a b by (simp add: mock_wallet_def)
qed

text \<open>
  The claim as first stated, for every wallet constructor, fails on \<^verbatim>\<open>AsyncWallet\<close> and
  \<^verbatim>\<open>Wallet\<close>: a network info with chain id 1 against an endpoint that reports 5 is
  accepted.
\<close>

theorem AsyncWallet_init_ignores_chain_id_mismatch:
  "has_keys (PDict custom_info) NetworkInfo_keys \<and>
   py_getitem (PDict custom_info) ''chain_id'' = Inr (PInt 1) \<and>
   eth_chain_id mock_env (Web3 HTTPProvider (PStr ''http://localhost:8545'')) = Inr 5 \<and>
   AsyncWallet_init mock_env network_map ''0x01'' (PDict custom_info) = Inr mock_wallet \<and>
   Wallet_init mock_env network_map ''0x01'' (PDict custom_info) = Inr mock_wallet"
  by (simp add: has_keys_def NetworkInfo_keys_def custom_info_def mock_env_def mock_wallet_def
      AsyncWallet_init_def Wallet_init_def AsyncWallet_validate_network_def in_literal_def
      py_getitem_def getitem_def str_upper_def py_upper_char_def)

section \<open>Balances and the synchronous wrappers\<close>

lemma AsyncWallet_get_balance_of_raw:
  "load_token_contract env (provider w) token = Inr c \<Longrightarrow>
   balanceOf_call env c (public_key w) = Inr balance \<Longrightarrow>
   AsyncWallet_get_balance_of env w token False = Inr (PyInt balance)"
  by (simp add: AsyncWallet_get_balance_of_def AsyncWallet_get_balance_of_on_def)

lemma AsyncWallet_get_balance_of_converted:
  "load_token_contract env (provider w) token = Inr c \<Longrightarrow>
   balanceOf_call env c (public_key w) = Inr balance \<Longrightarrow>
   decimals_call env c = Inr decimals \<Longrightarrow>
   AsyncWallet_get_balance_of env w token True = Inr (PyFloat (real_of_int balance / 10 ^ decimals))"
  by (simp add: AsyncWallet_get_balance_of_def AsyncWallet_get_balance_of_on_def
      self_get_decimals_def AsyncWallet_get_decimals_def)

lemma Wallet_get_balance_of_ignores_convert:
  "Wallet_get_balance_of env w token convert = Wallet_get_balance_of env w token True"
  by (simp add: Wallet_get_balance_of_def)

lemma Wallet_get_balance_of_never_returns:
  "Wallet_get_balance_of env w token convert \<noteq> Inr x"
proof (cases "load_token_contract env (provider w) token")
  case (Inl e)
  then show ?thesis
    by (simp add: Wallet_get_balance_of_def asyncio_run_def AsyncWallet_get_balance_of_on_def)
next
  case (Inr c)
  then show ?thesis
    by (cases "balanceOf_call env c (public_key w)")
      (simp_all add: Wallet_get_balance_of_def asyncio_run_def AsyncWallet_get_balance_of_on_def
        self_get_decimals_def asyncio_run_in_running_loop_def)
qed

lemma Wallet_get_balance_ignores_to_wei:
  "Wallet_get_balance env w to_wei = AsyncWallet_get_balance env w False"
  by (simp add: Wallet_get_balance_def asyncio_run_def)

text \<open>
  Claim C3 says that \<^verbatim>\<open>get_balance_of\<close> divides by \<open>10 ^ decimals\<close> exactly when
  \<^verbatim>\<open>convert\<close> is set, and returns the raw balance otherwise, in the asynchronous and in
  the synchronous wallet. The synchronous \<^verbatim>\<open>Wallet.get_balance_of\<close> does not hand
  \<^verbatim>\<open>convert\<close> on, so the coroutine always takes the converting branch, and there the
  decimals are asked of \<^verbatim>\<open>Wallet.get_decimals\<close>, which cannot block inside the running
  loop: with a raw balance of 1000 and three decimals, the call with \<^verbatim>\<open>convert=False\<close>
  raises \<^verbatim>\<open>RuntimeError\<close>, where the asynchronous method returns 1000.
\<close>

theorem Wallet_get_balance_of_raises_without_convert:
  "balanceOf_call mock_env
     (Contract (provider mock_wallet) ''0xdAC17F958D2ee523a2206206994597C13D831ec7'')
     (public_key mock_wallet) = Inr 1000 \<and>
   Wallet_get_decimals mock_env mock_wallet (PStr ''0xdAC17F958D2ee523a2206206994597C13D831ec7'') = Inr 3 \<and>
   Wallet_get_balance_of mock_env mock_wallet
     (PStr ''0xdAC17F958D2ee523a2206206994597C13D831ec7'') False =
     Inl (RuntimeError ''asyncio.run() cannot be called from a running event loop'') \<and>
   AsyncWallet_get_balance_of mock_env mock_wallet
     (PStr ''0xdAC17F958D2ee523a2206206994597C13D831ec7'') False = Inr (PyInt 1000) \<and>
   AsyncWallet_get_balance_of mock_env mock_wallet
     (PStr ''0xdAC17F958D2ee523a2206206994597C13D831ec7'') True = Inr (PyFloat 1)"
  by (simp add: Wallet_get_balance_of_def Wallet_get_decimals_def asyncio_run_def
      AsyncWallet_get_balance_of_def AsyncWallet_get_balance_of_on_def self_get_decimals_def
      asyncio_run_in_running_loop_def AsyncWallet_get_decimals_def mock_env_def)

text \<open>
  Claim C4 says that every synchronous method returns what blocking on the asynchronous one
  with the same arguments returns. \<^verbatim>\<open>Wallet.get_balance\<close> does not hand \<^verbatim>\<open>to_wei\<close> on:
  with two ether on the account, \<^verbatim>\<open>get_balance(True)\<close> returns 2 (ether) where the
  asynchronous method returns 2000000000000000000 (wei); \<^verbatim>\<open>Wallet.get_balance_of\<close> with
  \<^verbatim>\<open>convert=False\<close> differs from its asynchronous counterpart as well.
\<close>

theorem Wallet_get_balance_differs_from_async:
  "Wallet_get_balance mock_env mock_wallet True = Inr (PyDecimal 2) \<and>
   asyncio_run (AsyncWallet_get_balance mock_env mock_wallet True) = Inr (PyInt 2000000000000000000) \<and>
   Wallet_get_balance_of mock_env mock_wallet
     (PStr ''0xdAC17F958D2ee523a2206206994597C13D831ec7'') False \<noteq>
   asyncio_run (AsyncWallet_get_balance_of mock_env mock_wallet
     (PStr ''0xdAC17F958D2ee523a2206206994597C13D831ec7'') False)"
  by (simp add: Wallet_get_balance_def Wallet_get_balance_of_def asyncio_run_def
      AsyncWallet_get_balance_def AsyncWallet_get_balance_of_def AsyncWallet_get_balance_of_on_def
      self_get_decimals_def asyncio_run_in_running_loop_def AsyncWallet_get_decimals_def
      mock_env_def)

section \<open>The native token test\<close>

lemma is_native_token_str:
  "py_getitem (network w) ''token'' = Inr (PStr native) \<Longrightarrow>
   AsyncWallet_is_native_token w (PStr s) =
     Inr (str_upper s = native \<or> str_lower s = native \<or> s = ZERO_ADDRESS) \<and>
   BaseWallet_is_native_token w (PStr s) =
     Inr (str_upper s = native \<or> str_lower s = native \<or> s = ZERO_ADDRESS)"
  by (simp add: AsyncWallet_is_native_token_def BaseWallet_is_native_token_def
      isinstance_HexBytes_def isinstance_bytes_def py_upper_def py_lower_def py_eq_def)

text \<open>
  Claim C5 says that \<^verbatim>\<open>is_native_token\<close> is true of the native symbol in any letter case
  and of the zero address as a string or as bytes, and false otherwise. The hexadecimal form
  of a byte-string argument is computed and dropped, so the twenty zero bytes, whose
  hexadecimal form is the zero address, are not recognized, while the string is.
\<close>

theorem is_native_token_zero_address_bytes:
  "HexBytes_hex zero_address_bytes = ZERO_ADDRESS \<and>
   AsyncWallet_is_native_token mock_wallet (PStr ZERO_ADDRESS) = Inr True \<and>
   AsyncWallet_is_native_token mock_wallet (PHexBytes zero_address_bytes) = Inr False \<and>
   BaseWallet_is_native_token mock_base_wallet (PHexBytes zero_address_bytes) = Inr False \<and>
   BaseWallet_is_native_token mock_base_wallet (PBytes zero_address_bytes) = Inr False"
  by (simp add: HexBytes_hex_def bytes_hex_def hex_digit_def zero_address_bytes_def
      ZERO_ADDRESS_def AsyncWallet_is_native_token_def BaseWallet_is_native_token_def
      mock_wallet_def mock_base_wallet_def custom_info_def py_getitem_def getitem_def
      isinstance_HexBytes_def isinstance_bytes_def py_hex_def py_upper_def py_lower_def
      py_eq_def str_upper_def str_lower_def py_upper_char_def py_lower_char_def
      bytes_upper_def bytes_lower_def)

lemma is_native_token_mixed_case_symbol:
  "AsyncWallet_is_native_token
     (mock_wallet\<lparr>network := PDict [(''token'', PStr ''stETH'')]\<rparr>) (PStr ''stETH'') = Inr False"
  by (simp add: AsyncWallet_is_native_token_def mock_wallet_def py_getitem_def getitem_def
      isinstance_HexBytes_def py_upper_def py_lower_def py_eq_def str_upper_def str_lower_def
      py_upper_char_def py_lower_char_def ZERO_ADDRESS_def)

end
